theory Spec2Isabelle
  imports Main
begin

section \<open>Values handled by the team member form\<close>

text \<open>
  The form of \<^verbatim>\<open>src/pages/team/TeamForm.jsx\<close> stores JavaScript values in its
  fields. The \<^verbatim>\<open>image\<close> field is the only one that is not a plain string: it is
  \<^verbatim>\<open>null\<close> by default, a \<^verbatim>\<open>FileList\<close> once the user has touched the file input, and
  whatever the fetched record carries after the edit-mode reset (nothing, a URL string,
  or a reference object with \<^verbatim>\<open>public_url\<close> and \<^verbatim>\<open>url\<close>, the three shapes the
  component's own rendering code distinguishes).
\<close>

datatype js_file = File string

datatype jsval =
    Undefined
  | Null
  | Str string
  | Ref "string option" "string option"  \<comment> \<open>\<open>{public_url, url}\<close>\<close>
  | FileList "js_file list"

text \<open>JavaScript truthiness, as used by \<^verbatim>\<open>&&\<close>, \<^verbatim>\<open>||\<close>, \<^verbatim>\<open>!\<close> and \<^verbatim>\<open>if\<close>.\<close>

fun truthy :: "jsval \<Rightarrow> bool" where
  "truthy Undefined = False"
| "truthy Null = False"
| "truthy (Str s) = (s \<noteq> [])"
| "truthy (Ref p u) = True"
| "truthy (FileList fs) = True"

text \<open>
  A route parameter or an optional string property: \<open>None\<close> is \<^verbatim>\<open>undefined\<close>, and the
  empty string is falsy.
\<close>

fun truthy_str :: "string option \<Rightarrow> bool" where
  "truthy_str None = False"
| "truthy_str (Some s) = (s \<noteq> [])"

text \<open>
  \<^verbatim>\<open>v.length > 0\<close> for a value \<open>v\<close> that is already known to be truthy. A reference
  object has no \<^verbatim>\<open>length\<close>, and \<^verbatim>\<open>undefined > 0\<close> is false.
\<close>

fun length_gt0 :: "jsval \<Rightarrow> bool" where
  "length_gt0 (Str s) = (0 < length s)"
| "length_gt0 (FileList fs) = (0 < length fs)"
| "length_gt0 (Ref p u) = False"
| "length_gt0 Undefined = False"
| "length_gt0 Null = False"

text \<open>\<^verbatim>\<open>v && v.length > 0\<close>, read as a condition: the right operand is only evaluated
  when \<open>v\<close> is truthy.\<close>

definition and_length_gt0 :: "jsval \<Rightarrow> bool" where
  "and_length_gt0 v = (if truthy v then length_gt0 v else False)"

text \<open>\<^verbatim>\<open>a || b\<close> on values, and \<^verbatim>\<open>s || ""\<close> on an optional string.\<close>

definition js_or :: "jsval \<Rightarrow> jsval \<Rightarrow> jsval" where
  "js_or a b = (if truthy a then a else b)"

definition or_empty :: "string option \<Rightarrow> string" where
  "or_empty s = (case s of None \<Rightarrow> [] | Some t \<Rightarrow> (if t \<noteq> [] then t else []))"

text \<open>What the user sees as a selection: a file list with at least one file.\<close>

fun file_selected :: "jsval \<Rightarrow> bool" where
  "file_selected (FileList fs) = (fs \<noteq> [])"
| "file_selected v = False"

section \<open>Form values and the validation schema\<close>

text \<open>
  The object held by the form library. The keys \<^verbatim>\<open>id\<close> and \<^verbatim>\<open>existingImage\<close> are not
  among the default values (lines 52-58); they only exist once \<^verbatim>\<open>reset\<close> has been
  called with them (lines 67-75). A missing key reads as \<^verbatim>\<open>undefined\<close>.
\<close>

record form_values =
  name :: string
  designation :: string
  department :: string
  description :: string
  image_fv :: jsval
  id_fv :: "string option"
  existingImage_fv :: jsval

definition defaultValues :: form_values where
  "defaultValues =
     \<lparr> name = [], designation = [], department = [], description = [],
       image_fv = Null, id_fv = None, existingImage_fv = Undefined \<rparr>"

record field_errors =
  name_error :: "string option"
  designation_error :: "string option"
  department_error :: "string option"
  description_error :: "string option"
  image_error :: "string option"

text \<open>
  The two rule kinds of the validation library that the schema uses on text fields:
  \<^verbatim>\<open>string().required(msg)\<close> rejects the empty string with \<open>msg\<close>, and a bare
  \<^verbatim>\<open>string()\<close> accepts every string.
\<close>

definition string_required :: "string \<Rightarrow> string \<Rightarrow> string option" where
  "string_required msg v = (if v = [] then Some msg else None)"

definition string_optional :: "string \<Rightarrow> string option" where
  "string_optional v = None"

text \<open>
  The test function of the \<^verbatim>\<open>image\<close> rule (lines 22-27); \<^verbatim>\<open>this.parent\<close> is the
  whole form value object. The library reports the rule's message when the function
  returns a falsy value.
\<close>

definition image_test :: "form_values \<Rightarrow> jsval \<Rightarrow> bool" where
  "image_test parent v =
     (if truthy_str (id_fv parent) \<and> truthy (existingImage_fv parent) then True
      else and_length_gt0 v)"

definition mixed_test :: "string \<Rightarrow> bool \<Rightarrow> string option" where
  "mixed_test msg ok = (if ok then None else Some msg)"

text \<open>
  A \<^verbatim>\<open>mixed()\<close> rule that is not declared nullable: the validation library rejects
  the value \<^verbatim>\<open>null\<close> with its own message, "<path> cannot be null", before any
  custom test runs. \<^verbatim>\<open>undefined\<close> is let through to the tests.
\<close>

definition mixed_rule :: "string \<Rightarrow> jsval \<Rightarrow> string option \<Rightarrow> string option" where
  "mixed_rule path v tests =
     (if v = Null then Some (path @ '' cannot be null'') else tests)"

definition schema :: "form_values \<Rightarrow> field_errors" where
  "schema fv =
     \<lparr> name_error = string_required ''Name is required'' (name fv),
       designation_error = string_optional (designation fv),
       department_error = string_optional (department fv),
       description_error = string_optional (description fv),
       image_error =
         mixed_rule ''image'' (image_fv fv)
           (mixed_test ''Image is required'' (image_test fv (image_fv fv))) \<rparr>"

definition no_errors :: "field_errors \<Rightarrow> bool" where
  "no_errors e =
     (name_error e = None \<and> designation_error e = None \<and> department_error e = None
      \<and> description_error e = None \<and> image_error e = None)"

section \<open>The department selector\<close>

text \<open>The \<^verbatim>\<open>option\<close> elements of lines 182-193, as (value, label, disabled).\<close>

definition department_options :: "(string \<times> string \<times> bool) list" where
  "department_options =
     [ ('''', ''Select department'', True),
       (''Sales'', ''Sales'', False),
       (''Design'', ''Design'', False),
       (''Development'', ''Production'', False),
       (''Marketing'', ''Marketing'', False),
       (''HR'', ''Human Resources'', False),
       (''Finance'', ''Finance'', False),
       (''Operations'', ''Operations'', False),
       (''Management'', ''Management'', False),
       (''Other'', ''Other'', False) ]"

definition option_label :: "string \<Rightarrow> string option" where
  "option_label v = map_option fst (map_of department_options v)"

section \<open>The component: record loading, preview and rendering\<close>

text \<open>
  \<^verbatim>\<open>teamData.data\<close>, the record returned by the fetch-by-id query. A property that
  the server left out is \<open>None\<close> (for the image: \<open>Undefined\<close>).
\<close>

record team_record =
  data_name :: "string option"
  data_designation :: "string option"
  data_department :: "string option"
  data_description :: "string option"
  data_image :: jsval

text \<open>
  The state of one mounted form: the values held by the form library and the two
  \<^verbatim>\<open>useState\<close> cells of lines 33-34.
\<close>

record component =
  formValues :: form_values
  existingImage :: jsval
  imagePreview :: "string option"

definition mount :: component where
  "mount = \<lparr> formValues = defaultValues, existingImage = Null, imagePreview = None \<rparr>"

text \<open>The object literal handed to \<^verbatim>\<open>reset\<close> (lines 67-75).\<close>

definition reset_values :: "string option \<Rightarrow> team_record \<Rightarrow> form_values" where
  "reset_values rid d =
     \<lparr> name = or_empty (data_name d),
       designation = or_empty (data_designation d),
       department = or_empty (data_department d),
       description = or_empty (data_description d),
       image_fv = data_image d,
       id_fv = rid,
       existingImage_fv = data_image d \<rparr>"

text \<open>
  The effect of lines 63-79, run when the query result changes. \<open>rid\<close> is the route
  parameter \<^verbatim>\<open>id\<close>; \<open>teamData\<close> is \<open>None\<close> while the query is skipped, pending or
  failed (\<^verbatim>\<open>teamData?.data\<close> is then \<^verbatim>\<open>undefined\<close>).
\<close>

text \<open>
  The files held by the file input element itself: the user's last selection, and
  nothing when the form value is not a file list (the element is then untouched, or
  was cleared when a value was written to the field).
\<close>

fun input_files :: "jsval \<Rightarrow> js_file list" where
  "input_files (FileList fs) = fs"
| "input_files v = []"

text \<open>
  \<^verbatim>\<open>reset\<close> of the form library: the given object becomes the form values. The
  \<^verbatim>\<open>image\<close> key belongs to a registered file input; when the object gives it no
  value (\<^verbatim>\<open>undefined\<close>), the library stores the file list of the input element
  instead. Any other value, \<^verbatim>\<open>null\<close> included, is stored as given. The first
  argument is the image value held before.
\<close>

definition reset :: "jsval \<Rightarrow> form_values \<Rightarrow> form_values" where
  "reset held vals =
     (if image_fv vals = Undefined then vals \<lparr> image_fv := FileList (input_files held) \<rparr>
      else vals)"

definition load_effect :: "string option \<Rightarrow> team_record option \<Rightarrow> component \<Rightarrow> component" where
  "load_effect rid teamData st =
     (case teamData of
        None \<Rightarrow> st
      | Some d \<Rightarrow>
          if truthy_str rid
          then st \<lparr> formValues := reset (image_fv (formValues st)) (reset_values rid d),
                    existingImage := js_or (data_image d) Null \<rparr>
          else st)"

text \<open>\<^verbatim>\<open>v[0]\<close> on a file list or a string; \<^verbatim>\<open>undefined\<close> where there is no such element.\<close>

datatype js_item = FileItem js_file | CharItem char | NoItem

fun index0 :: "jsval \<Rightarrow> js_item" where
  "index0 (FileList (f # fs)) = FileItem f"
| "index0 (Str (c # cs)) = CharItem c"
| "index0 v = NoItem"

text \<open>
  An exception that leaves an effect is not caught anywhere in the component: the form
  is torn down and takes no further event.
\<close>

datatype crash = TypeError

text \<open>
  \<^verbatim>\<open>reader.readAsDataURL(file)\<close> (line 89) accepts a file and starts reading it; given
  anything else, here one character of a string, it throws a \<^verbatim>\<open>TypeError\<close>.
\<close>

fun readAsDataURL :: "js_item \<Rightarrow> crash + js_file" where
  "readAsDataURL (FileItem f) = Inr f"
| "readAsDataURL (CharItem c) = Inl TypeError"
| "readAsDataURL NoItem = Inl TypeError"

text \<open>
  The preview effect of lines 82-93, run when the watched \<^verbatim>\<open>image\<close> value changes.
  With a non-empty value it hands the first element to a file reader and leaves the
  state alone until the reader calls back; otherwise it clears the preview at once.
  The second component of the result is the file being read, if any.
\<close>

definition preview_effect :: "component \<Rightarrow> crash + component \<times> js_file option" where
  "preview_effect st =
     (let watchedImage = image_fv (formValues st) in
      if and_length_gt0 watchedImage
      then (case readAsDataURL (index0 watchedImage) of
              Inl e \<Rightarrow> Inl e
            | Inr f \<Rightarrow> Inr (st, Some f))
      else Inr (st \<lparr> imagePreview := None \<rparr>, None))"

text \<open>The state an effect leaves behind, unless it threw.\<close>

definition effect_state :: "crash + component \<times> js_file option \<Rightarrow> crash + component" where
  "effect_state r = (case r of Inl e \<Rightarrow> Inl e | Inr (st, f) \<Rightarrow> Inr st)"

text \<open>The reader's \<^verbatim>\<open>onloadend\<close> callback (lines 86-88); \<open>None\<close> is a failed read.\<close>

definition reader_onloadend :: "string option \<Rightarrow> component \<Rightarrow> component" where
  "reader_onloadend result st = st \<lparr> imagePreview := result \<rparr>"

text \<open>
  What happens to the component between mount and submission. A change of the query
  result runs the loading effect, and the preview effect after it when the watched
  image value has changed (its dependency list, line 93); a change of the file input
  stores the input's file list and runs the preview effect.
\<close>

datatype ui_event =
    TeamData "team_record option"
  | NameInput string
  | DesignationInput string
  | DepartmentInput string
  | DescriptionInput string
  | ImageInput "js_file list"
  | ReaderLoadEnd "string option"

fun step :: "string option \<Rightarrow> component \<Rightarrow> ui_event \<Rightarrow> crash + component" where
  "step rid st (TeamData td) =
     (let st' = load_effect rid td st in
      if image_fv (formValues st') = image_fv (formValues st) then Inr st'
      else effect_state (preview_effect st'))"
| "step rid st (NameInput s) = Inr (st \<lparr> formValues := (formValues st) \<lparr> name := s \<rparr> \<rparr>)"
| "step rid st (DesignationInput s) =
     Inr (st \<lparr> formValues := (formValues st) \<lparr> designation := s \<rparr> \<rparr>)"
| "step rid st (DepartmentInput s) =
     Inr (st \<lparr> formValues := (formValues st) \<lparr> department := s \<rparr> \<rparr>)"
| "step rid st (DescriptionInput s) =
     Inr (st \<lparr> formValues := (formValues st) \<lparr> description := s \<rparr> \<rparr>)"
| "step rid st (ImageInput fs) =
     effect_state
       (preview_effect (st \<lparr> formValues := (formValues st) \<lparr> image_fv := FileList fs \<rparr> \<rparr>))"
| "step rid st (ReaderLoadEnd r) = Inr (reader_onloadend r st)"

text \<open>A torn-down form stays torn down; a mounted one takes the next event.\<close>

definition step_mounted :: "string option \<Rightarrow> crash + component \<Rightarrow> ui_event \<Rightarrow> crash + component" where
  "step_mounted rid r ev = (case r of Inl e \<Rightarrow> Inl e | Inr st \<Rightarrow> step rid st ev)"

definition run :: "string option \<Rightarrow> ui_event list \<Rightarrow> crash + component" where
  "run rid evs = foldl (step_mounted rid) (Inr mount) evs"

text \<open>
  The record consumed by the most recent \<^verbatim>\<open>reset\<close> in a history of events, if any
  \<^verbatim>\<open>reset\<close> has run at all. This is an observer of the history, not part of the state.
\<close>

fun loaded :: "string option \<Rightarrow> team_record option \<Rightarrow> ui_event \<Rightarrow> team_record option" where
  "loaded rid acc (TeamData (Some d)) = (if truthy_str rid then Some d else acc)"
| "loaded rid acc ev = acc"

definition last_loaded :: "string option \<Rightarrow> ui_event list \<Rightarrow> team_record option" where
  "last_loaded rid evs = foldl (loaded rid) None evs"

text \<open>The image section of the rendered form (lines 226-290).\<close>

definition prop_or :: "string option \<Rightarrow> jsval \<Rightarrow> jsval" where
  "prop_or p b = (case p of None \<Rightarrow> b | Some s \<Rightarrow> (if s \<noteq> [] then Str s else b))"

text \<open>\<^verbatim>\<open>existingImage?.public_url || existingImage?.url || existingImage\<close>\<close>

fun image_src :: "jsval \<Rightarrow> jsval" where
  "image_src (Ref p u) = prop_or p (prop_or u (Ref p u))"
| "image_src v = v"

record image_section =
  show_preview :: bool
  show_existing :: bool
  existing_src :: jsval
  show_replace_note :: bool
  show_instructions :: bool

definition render_image_section :: "component \<Rightarrow> image_section" where
  "render_image_section st =
     \<lparr> show_preview = truthy_str (imagePreview st),
       show_existing = truthy (existingImage st),
       existing_src = image_src (existingImage st),
       show_replace_note = (truthy (existingImage st) \<and> truthy_str (imagePreview st)),
       show_instructions = (\<not> truthy_str (imagePreview st) \<and> \<not> truthy (existingImage st)) \<rparr>"

section \<open>Submission\<close>

text \<open>
  A multipart payload is the list of its entries in the order they were appended.
  Appending a file stores the file; appending anything else stores its string form.
\<close>

datatype form_entry = Text string | Blob js_file

type_synonym payload = "(string \<times> form_entry) list"

fun entry_of :: "js_item \<Rightarrow> form_entry" where
  "entry_of (FileItem f) = Blob f"
| "entry_of (CharItem c) = Text [c]"
| "entry_of NoItem = Text ''undefined''"

text \<open>Lines 97-105.\<close>

definition build_payload :: "form_values \<Rightarrow> payload" where
  "build_payload formData =
     [ (''name'', Text (name formData)),
       (''designation'', Text (designation formData)),
       (''department'', Text (department formData)),
       (''description'', Text (description formData)) ]
     @ (if and_length_gt0 (image_fv formData)
        then [(''image'', entry_of (index0 (image_fv formData)))]
        else [])"

text \<open>
  The two mutations are collaborators: each maps a request to the way its promise
  settles. A rejection carries \<^verbatim>\<open>err.data.message\<close>, \<^verbatim>\<open>err.data\<close> without a message,
  or no \<^verbatim>\<open>data\<close> at all.
\<close>

datatype rejection = NoData | Data "string option"

datatype settled = Fulfilled | Rejected rejection

record api =
  updateTeam :: "string \<Rightarrow> payload \<Rightarrow> settled"
  createTeam :: "payload \<Rightarrow> settled"

text \<open>What the handler does to the outside world, in order.\<close>

datatype effect =
    UpdateTeam string payload
  | CreateTeam payload
  | ToastSuccess string
  | ToastError string
  | Navigate string

fun is_call :: "effect \<Rightarrow> bool" where
  "is_call (UpdateTeam i p) = True"
| "is_call (CreateTeam p) = True"
| "is_call e = False"

text \<open>\<^verbatim>\<open>await m.unwrap()\<close>: a rejection is thrown, a fulfilment continues.\<close>

definition unwrap :: "settled \<Rightarrow> rejection + unit" where
  "unwrap s = (case s of Fulfilled \<Rightarrow> Inr () | Rejected e \<Rightarrow> Inl e)"

text \<open>
  The \<^verbatim>\<open>try\<close> block of lines 96-115: the effects performed, and either the value thrown
  inside it or normal completion.
\<close>

definition try_block :: "api \<Rightarrow> string option \<Rightarrow> form_values \<Rightarrow> effect list \<times> (rejection + unit)" where
  "try_block a rid formData =
     (let payload = build_payload formData;
          (effs, r) =
            (case rid of
               Some i \<Rightarrow>
                 if i \<noteq> [] then
                   (case unwrap (updateTeam a i payload) of
                      Inl e \<Rightarrow> ([UpdateTeam i payload], Inl e)
                    | Inr u \<Rightarrow>
                        ([UpdateTeam i payload,
                          ToastSuccess ''Team member updated successfully!''], Inr ()))
                 else
                   (case unwrap (createTeam a payload) of
                      Inl e \<Rightarrow> ([CreateTeam payload], Inl e)
                    | Inr u \<Rightarrow>
                        ([CreateTeam payload,
                          ToastSuccess ''Team member added successfully!''], Inr ()))
             | None \<Rightarrow>
                 (case unwrap (createTeam a payload) of
                    Inl e \<Rightarrow> ([CreateTeam payload], Inl e)
                  | Inr u \<Rightarrow>
                      ([CreateTeam payload,
                        ToastSuccess ''Team member added successfully!''], Inr ())))
      in case r of
           Inl e \<Rightarrow> (effs, Inl e)
         | Inr u \<Rightarrow> (effs @ [Navigate ''/team''], Inr ()))"

text \<open>\<^verbatim>\<open>err?.data?.message || "Failed to save team member"\<close>\<close>

definition error_message :: "rejection \<Rightarrow> string" where
  "error_message err =
     (case err of
        NoData \<Rightarrow> ''Failed to save team member''
      | Data None \<Rightarrow> ''Failed to save team member''
      | Data (Some m) \<Rightarrow> (if m \<noteq> [] then m else ''Failed to save team member''))"

text \<open>
  \<^verbatim>\<open>onSubmit\<close> (lines 95-119) on a component in state \<open>st\<close>: the state afterwards, the
  effects performed, and the value that leaves the handler as an exception, if any.
\<close>

record submission =
  state_after :: component
  effects :: "effect list"
  thrown :: "rejection option"

definition onSubmit :: "api \<Rightarrow> string option \<Rightarrow> component \<Rightarrow> form_values \<Rightarrow> submission" where
  "onSubmit a rid st formData =
     (case try_block a rid formData of
        (effs, Inr u) \<Rightarrow> \<lparr> state_after = st, effects = effs, thrown = None \<rparr>
      | (effs, Inl err) \<Rightarrow>
          \<lparr> state_after = st, effects = effs @ [ToastError (error_message err)],
            thrown = None \<rparr>)"

text \<open>
  \<^verbatim>\<open>handleSubmit(onSubmit)\<close> (line 130): the form library validates the current values
  with the schema and calls the handler only when no field has an error.
\<close>

definition handleSubmit :: "api \<Rightarrow> string option \<Rightarrow> component \<Rightarrow> field_errors \<times> submission option" where
  "handleSubmit a rid st =
     (let errors = schema (formValues st) in
      if no_errors errors
      then (errors, Some (onSubmit a rid st (formValues st)))
      else (errors, None))"

section \<open>Observers used in the statements\<close>

text \<open>
  The image of the record that the most recent \<^verbatim>\<open>reset\<close> consumed; \<^verbatim>\<open>undefined\<close> when
  no \<^verbatim>\<open>reset\<close> has run, which is the case in create mode and, in edit mode, as long
  as the query is pending or has failed.
\<close>

definition fetched_image :: "string option \<Rightarrow> ui_event list \<Rightarrow> jsval" where
  "fetched_image rid evs =
     (case last_loaded rid evs of None \<Rightarrow> Undefined | Some d \<Rightarrow> data_image d)"


text \<open>How the promise behind a network call settles.\<close>

fun settle :: "api \<Rightarrow> effect \<Rightarrow> settled option" where
  "settle a (UpdateTeam i p) = Some (updateTeam a i p)"
| "settle a (CreateTeam p) = Some (createTeam a p)"
| "settle a e = None"

text \<open>
  Two fetched records for the edit of record "42": one whose image is a reference
  object \<^verbatim>\<open>{url: "x.png"}\<close>, one whose image is the bare URL string \<^verbatim>\<open>"x.png"\<close>.
  The rendering code accepts both shapes (lines 252-256).
\<close>

definition john_ref :: team_record where
  "john_ref =
     \<lparr> data_name = Some ''John'', data_designation = None, data_department = None,
       data_description = None, data_image = Ref None (Some ''x.png'') \<rparr>"

definition john_url :: team_record where
  "john_url =
     \<lparr> data_name = Some ''John'', data_designation = None, data_department = None,
       data_description = None, data_image = Str ''x.png'' \<rparr>"

text \<open>Collaborators that always succeed, and that always reject with a message.\<close>

definition api_ok :: api where
  "api_ok = \<lparr> updateTeam = (\<lambda>i p. Fulfilled), createTeam = (\<lambda>p. Fulfilled) \<rparr>"

definition api_name_taken :: api where
  "api_name_taken =
     \<lparr> updateTeam = (\<lambda>i p. Rejected (Data (Some ''Name taken''))),
       createTeam = (\<lambda>p. Rejected (Data (Some ''Name taken''))) \<rparr>"

text \<open>
  States of the form used in the examples: a create-mode form with the name typed and
  the file input untouched; the same with the file "photo.png" selected; an edit-mode
  form whose fetch has failed, with a name typed; and the edit of record "42" after
  loading the record with the reference object and changing the description.
\<close>

definition jane_untouched :: component where
  "jane_untouched = mount \<lparr> formValues := defaultValues \<lparr> name := ''Jane Doe'' \<rparr> \<rparr>"

definition jane_selected :: component where
  "jane_selected =
     mount \<lparr> formValues :=
       defaultValues \<lparr> name := ''Jane Doe'', image_fv := FileList [File ''photo.png''] \<rparr> \<rparr>"

definition john_unfetched :: component where
  "john_unfetched = mount \<lparr> formValues := defaultValues \<lparr> name := ''John'' \<rparr> \<rparr>"

definition john_edited :: component where
  "john_edited =
     \<lparr> formValues =
         \<lparr> name = ''John'', designation = [], department = [], description = ''hi'',
           image_fv = Ref None (Some ''x.png''), id_fv = Some ''42'',
           existingImage_fv = Ref None (Some ''x.png'') \<rparr>,
       existingImage = Ref None (Some ''x.png''),
       imagePreview = None \<rparr>"

section \<open>Validation of the text fields\<close>

text \<open>
  Claim C7. The name rule reports "Name is required" exactly when the name is the empty
  string, so no non-empty name carries a name error; the rules of designation,
  department and description never report anything.
\<close>

theorem C7_text_field_validation:
  "(name_error (schema fv) = Some ''Name is required'') = (name fv = [])
   \<and> (name_error (schema fv) = None) = (name fv \<noteq> [])
   \<and> designation_error (schema fv) = None
   \<and> department_error (schema fv) = None
   \<and> description_error (schema fv) = None"
  by (simp add: schema_def string_required_def string_optional_def)

section \<open>The department options\<close>

text \<open>
  Claim C9. The selector offers the placeholder with the empty value followed by the
  nine values Sales, Design, Development, Marketing, HR, Finance, Operations,
  Management and Other, and the option with value "Development" is labelled
  "Production".
\<close>

theorem C9_department_options:
  "map fst department_options =
     [ '''', ''Sales'', ''Design'', ''Development'', ''Marketing'', ''HR'', ''Finance'',
       ''Operations'', ''Management'', ''Other'' ]
   \<and> option_label ''Development'' = Some ''Production''"
  by (simp add: department_options_def option_label_def)

section \<open>What a history of events leaves in the form values\<close>

lemma run_snoc: "run rid (evs @ [ev]) = step_mounted rid (run rid evs) ev"
  by (simp add: run_def)

lemma run_snoc_mounted:
  assumes "run rid (evs @ [ev]) = Inr st"
  obtains st0 where "run rid evs = Inr st0" and "step rid st0 ev = Inr st"
  using assms by (cases "run rid evs") (auto simp: run_snoc step_mounted_def)

lemma last_loaded_snoc: "last_loaded rid (evs @ [ev]) = loaded rid (last_loaded rid evs) ev"
  by (simp add: last_loaded_def)

text \<open>The preview effect only ever touches the preview, and throws on a non-empty string.\<close>

lemma preview_effect_mounted:
  assumes "effect_state (preview_effect st0) = Inr st"
  shows "formValues st = formValues st0" and "existingImage st = existingImage st0"
    and "image_fv (formValues st0) = Str s \<Longrightarrow> s = []"
proof -
  from assms show "formValues st = formValues st0" and "existingImage st = existingImage st0"
    by (auto simp: preview_effect_def effect_state_def Let_def split: if_splits sum.splits)
  assume "image_fv (formValues st0) = Str s"
  with assms show "s = []"
    by (cases s)
       (auto simp: preview_effect_def effect_state_def and_length_gt0_def Let_def
          split: if_splits sum.splits)
qed

text \<open>
  On a mounted form, the hidden values \<^verbatim>\<open>id\<close> and \<^verbatim>\<open>existingImage\<close> are exactly what
  the last \<^verbatim>\<open>reset\<close> wrote; the \<^verbatim>\<open>image\<close> value is the fetched image, the default
  \<^verbatim>\<open>null\<close>, or a file list of the file input, and never a non-empty string.
\<close>

lemma run_hidden_values:
  "run rid evs = Inr st \<Longrightarrow>
     id_fv (formValues st) = (if last_loaded rid evs = None then None else rid)
   \<and> existingImage_fv (formValues st) = fetched_image rid evs
   \<and> existingImage st = js_or (fetched_image rid evs) Null
   \<and> (last_loaded rid evs \<noteq> None \<longrightarrow> truthy_str rid)
   \<and> (image_fv (formValues st) = fetched_image rid evs \<and> last_loaded rid evs \<noteq> None
      \<or> image_fv (formValues st) = Null \<and> last_loaded rid evs = None
      \<or> (\<exists>fs. image_fv (formValues st) = FileList fs))
   \<and> (\<forall>s. image_fv (formValues st) = Str s \<longrightarrow> s = [])"
proof (induction evs arbitrary: st rule: rev_induct)
  case Nil
  then show ?case
    by (auto simp: last_loaded_def run_def mount_def defaultValues_def fetched_image_def
        js_or_def)
next
  case (snoc ev evs)
  from snoc.prems obtain st0 where st0: "run rid evs = Inr st0"
    and stp: "step rid st0 ev = Inr st"
    by (rule run_snoc_mounted)
  note ih = snoc.IH [OF st0]
  show ?case
  proof (cases ev)
    case (TeamData td)
    show ?thesis
    proof (cases "\<exists>d. td = Some d \<and> truthy_str rid")
      case False
      then have "load_effect rid td st0 = st0"
        by (cases td) (auto simp: load_effect_def)
      with stp TeamData have "st = st0" by (simp add: Let_def)
      moreover from False TeamData
      have "loaded rid (last_loaded rid evs) ev = last_loaded rid evs"
        by (cases td) auto
      ultimately show ?thesis
        using ih by (simp add: last_loaded_snoc fetched_image_def)
    next
      case True
      then obtain d where d: "td = Some d" "truthy_str rid" by blast
      let ?st' = "load_effect rid td st0"
      let ?vals = "reset (image_fv (formValues st0)) (reset_values rid d)"
      have fv': "formValues ?st' = ?vals"
        and ex': "existingImage ?st' = js_or (data_image d) Null"
        using d by (simp_all add: load_effect_def)
      have after: "formValues st = ?vals
            \<and> existingImage st = js_or (data_image d) Null
            \<and> (\<forall>s. image_fv (formValues st) = Str s \<longrightarrow> s = [])"
      proof (cases "image_fv (formValues ?st') = image_fv (formValues st0)")
        case True
        with stp TeamData have "st = ?st'" by (simp add: Let_def)
        with True ih fv' ex' show ?thesis by simp
      next
        case False
        with stp TeamData have eff: "effect_state (preview_effect ?st') = Inr st"
          by (simp add: Let_def)
        from preview_effect_mounted(1,2) [OF eff] preview_effect_mounted(3) [OF eff]
          fv' ex'
        show ?thesis by simp
      qed
      have idf: "id_fv (formValues st) = rid"
        and exf: "existingImage_fv (formValues st) = data_image d"
        and img: "image_fv (formValues st) = data_image d
                  \<or> (\<exists>fs. image_fv (formValues st) = FileList fs)"
        using after by (simp_all add: reset_def reset_values_def)
      have ll: "last_loaded rid (evs @ [ev]) = Some d"
        using d TeamData by (simp add: last_loaded_snoc)
      from idf exf img after d show ?thesis
        by (auto simp: ll fetched_image_def)
    qed
  next
    case (ImageInput fs)
    with stp have eff: "effect_state (preview_effect
        (st0 \<lparr> formValues := (formValues st0) \<lparr> image_fv := FileList fs \<rparr> \<rparr>)) = Inr st"
      by simp
    from preview_effect_mounted(1,2) [OF eff] ih ImageInput show ?thesis
      by (auto simp: last_loaded_snoc fetched_image_def)
  next
    case (ReaderLoadEnd r)
    with stp ih show ?thesis
      by (auto simp: last_loaded_snoc fetched_image_def reader_onloadend_def)
  qed (use stp ih in \<open>auto simp: last_loaded_snoc fetched_image_def\<close>)
qed

text \<open>The image rule on every form that a history leaves mounted.\<close>

lemma image_error_mounted:
  assumes "run rid evs = Inr st"
  shows "image_error (schema (formValues st)) =
           (if truthy_str (id_fv (formValues st)) \<and> truthy (existingImage_fv (formValues st))
            then None
            else if file_selected (image_fv (formValues st)) then None
            else if image_fv (formValues st) = Null then Some ''image cannot be null''
            else Some ''Image is required'')"
proof -
  let ?fv = "formValues st"
  from run_hidden_values [OF assms]
  have shape: "image_fv ?fv = existingImage_fv ?fv \<and> last_loaded rid evs \<noteq> None
               \<or> image_fv ?fv = Null \<and> last_loaded rid evs = None
               \<or> (\<exists>fs. image_fv ?fv = FileList fs)"
    and idv: "id_fv ?fv = (if last_loaded rid evs = None then None else rid)"
    and tr: "last_loaded rid evs \<noteq> None \<longrightarrow> truthy_str rid"
    and nostr: "\<forall>s. image_fv ?fv = Str s \<longrightarrow> s = []"
    by auto
  show ?thesis
  proof (cases "truthy_str (id_fv ?fv) \<and> truthy (existingImage_fv ?fv)")
    case True
    with shape idv have "image_fv ?fv \<noteq> Null" by (auto split: if_splits)
    with True show ?thesis
      by (simp add: schema_def mixed_rule_def mixed_test_def image_test_def)
  next
    case False
    have "and_length_gt0 (image_fv ?fv) = file_selected (image_fv ?fv)"
      using nostr by (cases "image_fv ?fv") (auto simp: and_length_gt0_def)
    with False show ?thesis
      by (auto simp: schema_def mixed_rule_def mixed_test_def image_test_def)
  qed
qed

text \<open>The definitions that a concrete history unfolds to.\<close>

lemmas eval_defs = run_def step_mounted_def load_effect_def reset_def reset_values_def
  preview_effect_def effect_state_def reader_onloadend_def mount_def defaultValues_def
  and_length_gt0_def js_or_def or_empty_def last_loaded_def fetched_image_def john_ref_def
  john_url_def api_ok_def api_name_taken_def jane_untouched_def jane_selected_def
  john_unfetched_def john_edited_def Let_def

text \<open>
  A record whose image is a bare URL string tears the form down as soon as it is
  loaded: the preview effect hands the first character of the URL to the file reader.
\<close>

lemma url_string_record_tears_down:
  "run (Some ''42'') [TeamData (Some john_url)] = Inl TypeError"
  by (simp add: eval_defs)

section \<open>Validation of the image field\<close>

text \<open>
  On a mounted form that carries a truthy id and a truthy existing image, the image
  rule passes.
\<close>

lemma image_rule_passes_with_existing_image:
  assumes "run rid evs = Inr st"
    and "truthy_str (id_fv (formValues st))" and "truthy (existingImage_fv (formValues st))"
  shows "image_error (schema (formValues st)) = None"
  using image_error_mounted [OF assms(1)] assms(2,3) by simp

text \<open>
  In edit mode, once the reset has consumed a record with a truthy image, the image
  rule passes whatever the file input holds.
\<close>

lemma edit_with_fetched_image_passes:
  assumes "run rid evs = Inr st" and "last_loaded rid evs = Some d"
    and "truthy (data_image d)"
  shows "image_error (schema (formValues st)) = None"
proof -
  from run_hidden_values [OF assms(1)] assms(2,3)
  have "truthy_str (id_fv (formValues st)) \<and> truthy (existingImage_fv (formValues st))"
    by (simp add: fetched_image_def)
  with assms(1) show ?thesis
    by (simp add: image_rule_passes_with_existing_image)
qed

text \<open>
  In create mode a submission with no file selected is always blocked, and the message
  is "Image is required" whenever the image value is not \<^verbatim>\<open>null\<close>, that is, once the
  file input has been touched.
\<close>

lemma create_without_file_is_blocked:
  assumes "run rid evs = Inr st" and "\<not> truthy_str rid"
    and "\<not> file_selected (image_fv (formValues st))"
  shows "image_error (schema (formValues st)) =
           (if image_fv (formValues st) = Null then Some ''image cannot be null''
            else Some ''Image is required'')"
    and "snd (handleSubmit a rid st) = None"
proof -
  from run_hidden_values [OF assms(1)] assms(2)
  have "\<not> (truthy_str (id_fv (formValues st)) \<and> truthy (existingImage_fv (formValues st)))"
    by auto
  with image_error_mounted [OF assms(1)] assms(3)
  show err: "image_error (schema (formValues st)) =
           (if image_fv (formValues st) = Null then Some ''image cannot be null''
            else Some ''Image is required'')"
    by simp
  then show "snd (handleSubmit a rid st) = None"
    by (simp add: handleSubmit_def Let_def no_errors_def)
qed

text \<open>After a selection has been made and cleared, the message is the rule's own.\<close>

lemma cleared_selection_reports_required:
  "(case run None [NameInput ''Jane Doe'', ImageInput [File ''photo.png''], ImageInput []] of
      Inl e \<Rightarrow> False
    | Inr st \<Rightarrow> image_error (schema (formValues st)) = Some ''Image is required'')"
  by (simp add: eval_defs schema_def mixed_rule_def mixed_test_def image_test_def)

text \<open>
  Claim C1, at the input where the code departs from it. In create mode, with the name
  "Jane Doe" typed and the file input never touched, the image value is still the
  default \<^verbatim>\<open>null\<close>. No file is selected and the submission is blocked, but the message
  on the image field is "image cannot be null", not "Image is required".
\<close>

theorem C1_untouched_create_form:
  "run None [NameInput ''Jane Doe''] = Inr jane_untouched
   \<and> \<not> file_selected (image_fv (formValues jane_untouched))
   \<and> image_error (fst (handleSubmit api_ok None jane_untouched)) = Some ''image cannot be null''
   \<and> image_error (fst (handleSubmit api_ok None jane_untouched)) \<noteq> Some ''Image is required''
   \<and> snd (handleSubmit api_ok None jane_untouched) = None"
  by (simp add: eval_defs handleSubmit_def no_errors_def schema_def mixed_rule_def
      mixed_test_def image_test_def)

text \<open>
  Claim C10. On a mounted form, the bypass of the image rule is present exactly when a
  reset has run on a fetched record with a truthy image, and the hidden values id and
  existingImage stay undefined as long as no reset has run. So in edit mode with the
  query pending or failed, or with a fetched record that has no image, the image rule
  passes exactly when a non-empty file list is selected; it reports exactly what it
  reports on a create-mode form that holds the same image value; and a submission
  without a selected file is blocked.
\<close>

theorem C10_bypass_only_after_reset:
  "run rid evs = Inr st \<Longrightarrow>
     (truthy_str (id_fv (formValues st)) \<and> truthy (existingImage_fv (formValues st)))
       = truthy (fetched_image rid evs)
   \<and> (last_loaded rid evs = None
      \<longrightarrow> id_fv (formValues st) = None \<and> existingImage_fv (formValues st) = Undefined)
   \<and> (\<not> truthy (fetched_image rid evs)
      \<longrightarrow> (image_error (schema (formValues st)) = None) = file_selected (image_fv (formValues st))
          \<and> image_error (schema (formValues st)) =
            image_error (schema (defaultValues \<lparr> image_fv := image_fv (formValues st) \<rparr>))
          \<and> (\<not> file_selected (image_fv (formValues st))
               \<longrightarrow> snd (handleSubmit a rid st) = None))"
proof -
  assume mounted: "run rid evs = Inr st"
  let ?fv = "formValues st"
  have bypass: "(truthy_str (id_fv ?fv) \<and> truthy (existingImage_fv ?fv))
                  = truthy (fetched_image rid evs)"
    using run_hidden_values [OF mounted] by (auto simp: fetched_image_def)
  have hidden: "last_loaded rid evs = None
      \<longrightarrow> id_fv ?fv = None \<and> existingImage_fv ?fv = Undefined"
    using run_hidden_values [OF mounted] by (simp add: fetched_image_def)
  have same: "(image_error (schema ?fv) = None) = file_selected (image_fv ?fv)
          \<and> image_error (schema ?fv) =
            image_error (schema (defaultValues \<lparr> image_fv := image_fv ?fv \<rparr>))
          \<and> (\<not> file_selected (image_fv ?fv) \<longrightarrow> snd (handleSubmit a rid st) = None)"
    if no: "\<not> truthy (fetched_image rid evs)"
  proof -
    from no bypass have nb: "\<not> (truthy_str (id_fv ?fv) \<and> truthy (existingImage_fv ?fv))"
      by simp
    with image_error_mounted [OF mounted]
    have err: "image_error (schema ?fv) =
        (if file_selected (image_fv ?fv) then None
         else if image_fv ?fv = Null then Some ''image cannot be null''
         else Some ''Image is required'')"
      by simp
    then have iff: "(image_error (schema ?fv) = None) = file_selected (image_fv ?fv)"
      by simp
    from nb have "image_error (schema ?fv) =
        mixed_rule ''image'' (image_fv ?fv)
          (mixed_test ''Image is required'' (and_length_gt0 (image_fv ?fv)))"
      by (auto simp: schema_def image_test_def)
    moreover have "image_error (schema (defaultValues \<lparr> image_fv := image_fv ?fv \<rparr>)) =
        mixed_rule ''image'' (image_fv ?fv)
          (mixed_test ''Image is required'' (and_length_gt0 (image_fv ?fv)))"
      by (simp add: schema_def image_test_def defaultValues_def)
    ultimately have eq: "image_error (schema ?fv) =
        image_error (schema (defaultValues \<lparr> image_fv := image_fv ?fv \<rparr>))"
      by simp
    have "snd (handleSubmit a rid st) = None" if "\<not> file_selected (image_fv ?fv)"
      using that iff by (simp add: handleSubmit_def Let_def no_errors_def)
    with iff eq show ?thesis by simp
  qed
  from bypass hidden same show ?thesis by blast
qed

theorem C10_bypass_only_after_reset_witness:
  "run (Some ''42'') [TeamData None, NameInput ''John''] = Inr john_unfetched
   \<and> last_loaded (Some ''42'') [TeamData None, NameInput ''John''] = None
   \<and> \<not> truthy (fetched_image (Some ''42'') [TeamData None, NameInput ''John''])
   \<and> id_fv (formValues john_unfetched) = None
   \<and> existingImage_fv (formValues john_unfetched) = Undefined
   \<and> \<not> file_selected (image_fv (formValues john_unfetched))
   \<and> image_error (schema (formValues john_unfetched)) \<noteq> None
   \<and> snd (handleSubmit api_ok (Some ''42'') john_unfetched) = None"
proof -
  have mounted: "run (Some ''42'') [TeamData None, NameInput ''John''] = Inr john_unfetched"
    by (simp add: eval_defs)
  have "\<not> file_selected (image_fv (formValues john_unfetched))"
    by (simp add: eval_defs)
  with mounted
    C10_bypass_only_after_reset
      [OF mounted, where a = api_ok]
  show ?thesis
    by (simp add: eval_defs schema_def mixed_rule_def mixed_test_def image_test_def)
qed

section \<open>Record loading\<close>




section \<open>The submit handler\<close>

text \<open>
  Claim C2. On every mounted form, the payload built from the form values consists of
  the four text fields, followed by an image entry exactly when a non-empty file list
  is selected; the entry is then the first selected file. A stored image of the server
  never enters the payload. In the edit of record "42" fetched as
  \<^verbatim>\<open>{name: "John", image: {url: "x.png"}}\<close>, with only the description changed, the
  payload has no image entry.
\<close>

theorem C2_payload:
  "run rid evs = Inr st \<Longrightarrow>
     build_payload (formValues st) =
       [ (''name'', Text (name (formValues st))),
         (''designation'', Text (designation (formValues st))),
         (''department'', Text (department (formValues st))),
         (''description'', Text (description (formValues st))) ]
       @ (case image_fv (formValues st) of
            FileList (f # fs) \<Rightarrow> [(''image'', Blob f)]
          | _ \<Rightarrow> [])
   \<and> (''image'' \<in> set (map fst (build_payload (formValues st))))
       = file_selected (image_fv (formValues st))"
proof -
  assume mounted: "run rid evs = Inr st"
  from run_hidden_values [OF mounted]
  have nostr: "\<And>s. image_fv (formValues st) = Str s \<Longrightarrow> s = []" by simp
  show ?thesis
    using nostr
    by (cases "image_fv (formValues st)")
       (auto simp: build_payload_def and_length_gt0_def split: list.split)
qed

theorem C2_payload_witness:
  "run (Some ''42'') [TeamData (Some john_ref), DescriptionInput ''hi''] = Inr john_edited
   \<and> build_payload (formValues john_edited) =
       [ (''name'', Text ''John''), (''designation'', Text []), (''department'', Text []),
         (''description'', Text ''hi'') ]
   \<and> ''image'' \<notin> set (map fst (build_payload (formValues john_edited)))
   \<and> snd (handleSubmit api_ok (Some ''42'') john_edited) =
       Some \<lparr> state_after = john_edited,
              effects =
                [ UpdateTeam ''42''
                    [ (''name'', Text ''John''), (''designation'', Text []),
                      (''department'', Text []), (''description'', Text ''hi'') ],
                  ToastSuccess ''Team member updated successfully!'',
                  Navigate ''/team'' ],
              thrown = None \<rparr>"
proof -
  have mounted: "run (Some ''42'') [TeamData (Some john_ref), DescriptionInput ''hi'']
      = Inr john_edited"
    by (simp add: eval_defs)
  have "snd (handleSubmit api_ok (Some ''42'') john_edited) =
       Some \<lparr> state_after = john_edited,
              effects =
                [ UpdateTeam ''42'' (build_payload (formValues john_edited)),
                  ToastSuccess ''Team member updated successfully!'',
                  Navigate ''/team'' ],
              thrown = None \<rparr>"
    by (simp add: handleSubmit_def no_errors_def schema_def mixed_rule_def mixed_test_def
        image_test_def string_required_def string_optional_def onSubmit_def try_block_def
        unwrap_def api_ok_def john_edited_def Let_def)
  with mounted C2_payload [OF mounted] show ?thesis
    by (simp add: john_edited_def)
qed

text \<open>
  Claim C4. Without a truthy route id the handler calls the create operation with the
  payload and, when it fulfils, shows "Team member added successfully!" and navigates
  to "/team". With a truthy route id it calls the update operation with the id and the
  payload and, when it fulfils, shows "Team member updated successfully!" and navigates
  to "/team".
\<close>

theorem C4_dispatch:
  "(\<not> truthy_str rid \<and> createTeam a (build_payload fd) = Fulfilled
      \<longrightarrow> effects (onSubmit a rid st fd) =
            [CreateTeam (build_payload fd),
             ToastSuccess ''Team member added successfully!'',
             Navigate ''/team''])
   \<and> (truthy_str (Some i) \<and> updateTeam a i (build_payload fd) = Fulfilled
      \<longrightarrow> effects (onSubmit a (Some i) st fd) =
            [UpdateTeam i (build_payload fd),
             ToastSuccess ''Team member updated successfully!'',
             Navigate ''/team''])"
  by (cases rid) (auto simp: onSubmit_def try_block_def unwrap_def Let_def)

theorem C4_dispatch_witness:
  "\<not> truthy_str None
   \<and> createTeam api_ok (build_payload (formValues jane_selected)) = Fulfilled
   \<and> effects (onSubmit api_ok None jane_selected (formValues jane_selected))
     = [CreateTeam
          [ (''name'', Text ''Jane Doe''), (''designation'', Text []),
            (''department'', Text []), (''description'', Text []),
            (''image'', Blob (File ''photo.png'')) ],
        ToastSuccess ''Team member added successfully!'',
        Navigate ''/team'']
   \<and> truthy_str (Some ''42'')
   \<and> effects (onSubmit api_ok (Some ''42'') jane_selected (formValues jane_selected))
     = [UpdateTeam ''42''
          [ (''name'', Text ''Jane Doe''), (''designation'', Text []),
            (''department'', Text []), (''description'', Text []),
            (''image'', Blob (File ''photo.png'')) ],
        ToastSuccess ''Team member updated successfully!'',
        Navigate ''/team'']"
  using C4_dispatch [of None api_ok "formValues jane_selected" jane_selected "''42''"]
  by (simp add: eval_defs build_payload_def)

text \<open>
  Claim C5. The handler never lets an exception out. When the create or the update
  operation rejects, the handler shows an error notification and nothing else: no
  navigation, and the component state is what it was. The notification text is
  err.data.message when that is a non-empty string, and "Failed to save team member"
  when the message is empty or missing or the error has no data.
\<close>

theorem C5_failure_is_caught:
  "thrown (onSubmit a rid st fd) = None
   \<and> (\<not> truthy_str rid \<and> createTeam a (build_payload fd) = Rejected err
      \<longrightarrow> effects (onSubmit a rid st fd) =
            [CreateTeam (build_payload fd), ToastError (error_message err)]
          \<and> state_after (onSubmit a rid st fd) = st)
   \<and> (truthy_str (Some i) \<and> updateTeam a i (build_payload fd) = Rejected err
      \<longrightarrow> effects (onSubmit a (Some i) st fd) =
            [UpdateTeam i (build_payload fd), ToastError (error_message err)]
          \<and> state_after (onSubmit a (Some i) st fd) = st)
   \<and> (m \<noteq> [] \<longrightarrow> error_message (Data (Some m)) = m)
   \<and> error_message (Data (Some [])) = ''Failed to save team member''
   \<and> error_message (Data None) = ''Failed to save team member''
   \<and> error_message NoData = ''Failed to save team member''"
proof -
  have "thrown (onSubmit a rid st fd) = None"
    by (simp add: onSubmit_def split: prod.split sum.split)
  moreover have "\<not> truthy_str rid \<and> createTeam a (build_payload fd) = Rejected err
      \<longrightarrow> effects (onSubmit a rid st fd) =
            [CreateTeam (build_payload fd), ToastError (error_message err)]
          \<and> state_after (onSubmit a rid st fd) = st"
    by (cases rid) (auto simp: onSubmit_def try_block_def unwrap_def Let_def)
  moreover have "truthy_str (Some i) \<and> updateTeam a i (build_payload fd) = Rejected err
      \<longrightarrow> effects (onSubmit a (Some i) st fd) =
            [UpdateTeam i (build_payload fd), ToastError (error_message err)]
          \<and> state_after (onSubmit a (Some i) st fd) = st"
    by (auto simp: onSubmit_def try_block_def unwrap_def Let_def)
  ultimately show ?thesis
    by (simp add: error_message_def)
qed

theorem C5_failure_is_caught_witness:
  "\<not> truthy_str None
   \<and> createTeam api_name_taken (build_payload (formValues jane_selected))
       = Rejected (Data (Some ''Name taken''))
   \<and> effects (onSubmit api_name_taken None jane_selected (formValues jane_selected))
     = [CreateTeam
          [ (''name'', Text ''Jane Doe''), (''designation'', Text []),
            (''department'', Text []), (''description'', Text []),
            (''image'', Blob (File ''photo.png'')) ],
        ToastError ''Name taken'']
   \<and> name (formValues (state_after
        (onSubmit api_name_taken None jane_selected (formValues jane_selected))))
     = ''Jane Doe''
   \<and> truthy_str (Some ''42'')
   \<and> ''Name taken'' \<noteq> []
   \<and> error_message (Data (Some ''Name taken'')) = ''Name taken''"
  using C5_failure_is_caught
          [of api_name_taken None jane_selected "formValues jane_selected"
              "Data (Some ''Name taken'')" "''42''" "''Name taken''"]
  by (simp add: eval_defs build_payload_def)

text \<open>The two shapes of the handler's effects: one call, then what follows its settling.\<close>

lemma onSubmit_effects:
  "\<exists>c. is_call c \<and>
     (case settle a c of
        Some Fulfilled \<Rightarrow> \<exists>m. effects (onSubmit a rid st fd) = [c, ToastSuccess m, Navigate ''/team'']
      | Some (Rejected e) \<Rightarrow> effects (onSubmit a rid st fd) = [c, ToastError (error_message e)]
      | None \<Rightarrow> False)"
proof (cases "truthy_str rid")
  case True
  then obtain i where rid: "rid = Some i" "i \<noteq> []" by (cases rid) auto
  show ?thesis
    by (rule exI [of _ "UpdateTeam i (build_payload fd)"])
       (cases "updateTeam a i (build_payload fd)";
        simp add: rid onSubmit_def try_block_def unwrap_def Let_def)
next
  case False
  show ?thesis
    apply (rule exI [of _ "CreateTeam (build_payload fd)"])
    using False
    apply (cases "createTeam a (build_payload fd)"; cases rid;
        simp add: onSubmit_def try_block_def unwrap_def Let_def)
    done
qed

text \<open>
  Claim C6. Every run of the submit handler performs exactly one network call, create
  or update. Wherever a navigation occurs among its effects, a network call that
  fulfilled occurs before it; so the handler navigates neither before its call has
  settled nor after a rejection.
\<close>

theorem C6_one_call_then_navigate:
  "length (filter is_call (effects (onSubmit a rid st fd))) = 1
   \<and> (\<forall>pre post x. effects (onSubmit a rid st fd) = pre @ Navigate x # post
        \<longrightarrow> (\<exists>c \<in> set pre. is_call c \<and> settle a c = Some Fulfilled))"
proof -
  from onSubmit_effects [of a rid st fd] obtain c where c: "is_call c"
    and shape: "(case settle a c of
        Some Fulfilled \<Rightarrow> \<exists>m. effects (onSubmit a rid st fd) = [c, ToastSuccess m, Navigate ''/team'']
      | Some (Rejected e) \<Rightarrow> effects (onSubmit a rid st fd) = [c, ToastError (error_message e)]
      | None \<Rightarrow> False)"
    by blast
  show ?thesis
  proof (cases "settle a c")
    case None
    with shape show ?thesis by simp
  next
    case (Some s)
    show ?thesis
    proof (cases s)
      case Fulfilled
      with Some shape obtain m where
        e: "effects (onSubmit a rid st fd) = [c, ToastSuccess m, Navigate ''/team'']"
        by auto
      show ?thesis
        using c Some Fulfilled
        by (auto simp: e Cons_eq_append_conv)
    next
      case (Rejected r)
      with Some shape have
        e: "effects (onSubmit a rid st fd) = [c, ToastError (error_message r)]"
        by auto
      show ?thesis
        using c
        by (auto simp: e Cons_eq_append_conv)
    qed
  qed
qed

theorem C6_one_call_then_navigate_witness:
  "effects (onSubmit api_ok None mount defaultValues)
     = [CreateTeam (build_payload defaultValues),
        ToastSuccess ''Team member added successfully!'']
       @ Navigate ''/team'' # []
   \<and> length (filter is_call (effects (onSubmit api_ok None mount defaultValues))) = 1
   \<and> (\<exists>c \<in> set [CreateTeam (build_payload defaultValues),
                  ToastSuccess ''Team member added successfully!''].
         is_call c \<and> settle api_ok c = Some Fulfilled)"
proof -
  have e: "effects (onSubmit api_ok None mount defaultValues)
     = [CreateTeam (build_payload defaultValues),
        ToastSuccess ''Team member added successfully!'']
       @ Navigate ''/team'' # []"
    by (simp add: onSubmit_def try_block_def unwrap_def api_ok_def Let_def)
  from C6_one_call_then_navigate [of api_ok None mount defaultValues] e
  show ?thesis by blast
qed

section \<open>Preview and the existing image\<close>

text \<open>A change of the file input never tears the form down.\<close>

lemma image_input_mounted:
  "step rid st (ImageInput fs) =
     Inr (if fs = [] then st \<lparr> formValues := (formValues st) \<lparr> image_fv := FileList [] \<rparr>,
                              imagePreview := None \<rparr>
          else st \<lparr> formValues := (formValues st) \<lparr> image_fv := FileList fs \<rparr> \<rparr>)"
  by (cases fs) (simp_all add: preview_effect_def effect_state_def and_length_gt0_def Let_def)

text \<open>
  Claim C8. Clearing the file selection leaves the form mounted with the preview state
  null. While the preview and the existing image state are both truthy, the form shows
  the preview, the existing image and the note that the image will be replaced. After
  the selection has been cleared, a truthy existing image is shown without the note.
  A change of the file input never touches the existing image, neither the state nor
  the hidden form value.
\<close>

theorem C8_preview_and_existing_image:
  "(case step rid st (ImageInput []) of
      Inl e \<Rightarrow> False
    | Inr st' \<Rightarrow> imagePreview st' = None)
   \<and> (truthy_str (imagePreview st) \<and> truthy (existingImage st)
      \<longrightarrow> show_preview (render_image_section st)
          \<and> show_existing (render_image_section st)
          \<and> show_replace_note (render_image_section st))
   \<and> (truthy (existingImage st)
      \<longrightarrow> (case step rid st (ImageInput []) of
            Inl e \<Rightarrow> False
          | Inr st' \<Rightarrow> show_existing (render_image_section st')
                     \<and> \<not> show_replace_note (render_image_section st')))
   \<and> (case step rid st (ImageInput fs) of
        Inl e \<Rightarrow> False
      | Inr st' \<Rightarrow> existingImage st' = existingImage st
                 \<and> existingImage_fv (formValues st') = existingImage_fv (formValues st))"
  by (simp add: image_input_mounted render_image_section_def del: step.simps)

theorem C8_preview_and_existing_image_witness:
  "truthy_str (imagePreview (john_edited \<lparr> imagePreview := Some ''data:image/png;base64,AAAA'' \<rparr>))
   \<and> truthy (existingImage (john_edited \<lparr> imagePreview := Some ''data:image/png;base64,AAAA'' \<rparr>))
   \<and> show_replace_note (render_image_section
        (john_edited \<lparr> imagePreview := Some ''data:image/png;base64,AAAA'' \<rparr>))
   \<and> (case step (Some ''42'')
             (john_edited \<lparr> imagePreview := Some ''data:image/png;base64,AAAA'' \<rparr>)
             (ImageInput []) of
        Inl e \<Rightarrow> False
      | Inr st' \<Rightarrow> imagePreview st' = None
                 \<and> show_existing (render_image_section st')
                 \<and> \<not> show_replace_note (render_image_section st'))"
proof -
  have pre: "truthy_str (imagePreview
        (john_edited \<lparr> imagePreview := Some ''data:image/png;base64,AAAA'' \<rparr>))
      \<and> truthy (existingImage
        (john_edited \<lparr> imagePreview := Some ''data:image/png;base64,AAAA'' \<rparr>))"
    by (simp add: john_edited_def)
  from C8_preview_and_existing_image
         [of "Some ''42''"
             "john_edited \<lparr> imagePreview := Some ''data:image/png;base64,AAAA'' \<rparr>"] pre
  show ?thesis
    by (auto split: sum.splits)
qed

end
